theory Spec2Isabelle
  imports Main
begin

section \<open>Python values, exceptions and output\<close>

text \<open>
  The snippets of \<^verbatim>\<open>classroom/snippets/snippets.py\<close> work on decoded JSON: dictionaries
  (kept as association lists in insertion order, looked up with \<open>map_of\<close>), lists,
  strings, integers, booleans and \<^verbatim>\<open>None\<close>. JSON numbers with a fraction are not part
  of the model.
\<close>

datatype pyval =
    PNone
  | PBool bool
  | PInt int
  | PStr string
  | PList "pyval list"
  | PDict "(string \<times> pyval) list"

text \<open>
  The \<^verbatim>\<open>content\<close> of an \<^verbatim>\<open>HttpError\<close> is a byte string that the handlers hand to
  \<^verbatim>\<open>json.loads\<close>; the model keeps it as what the decoder makes of it.
\<close>

datatype content = Undecodable | Decoded pyval

text \<open>
  \<open>HttpError status content\<close> is \<^verbatim>\<open>googleapiclient.errors.HttpError\<close>; \<open>OtherError\<close> is
  any exception of the transport that is not an \<^verbatim>\<open>HttpError\<close>.
\<close>

datatype exn =
    HttpError int content
  | AttributeError
  | TypeError
  | ValueError
  | OtherError string

definition json_loads :: "content \<Rightarrow> exn + pyval" where
  "json_loads c = (case c of Undecodable \<Rightarrow> Inl ValueError | Decoded v \<Rightarrow> Inr v)"

text \<open>\<^verbatim>\<open>obj.get(key, default)\<close>: only a dictionary has the method.\<close>

definition py_get :: "pyval \<Rightarrow> string \<Rightarrow> pyval \<Rightarrow> exn + pyval" where
  "py_get obj k d =
     (case obj of
        PDict kvs \<Rightarrow> Inr (case map_of kvs k of None \<Rightarrow> d | Some v \<Rightarrow> v)
      | _ \<Rightarrow> Inl AttributeError)"

text \<open>
  \<^verbatim>\<open>d[key] = value\<close> on a dictionary: an existing key keeps its place, a new key goes
  to the end.
\<close>

fun dict_store :: "string \<Rightarrow> pyval \<Rightarrow> (string \<times> pyval) list \<Rightarrow> (string \<times> pyval) list" where
  "dict_store k v [] = [(k, v)]"
| "dict_store k v (p # ps) = (if fst p = k then (k, v) # ps else p # dict_store k v ps)"

definition py_setitem :: "pyval \<Rightarrow> string \<Rightarrow> pyval \<Rightarrow> exn + pyval" where
  "py_setitem obj k v =
     (case obj of
        PDict kvs \<Rightarrow> Inr (PDict (dict_store k v kvs))
      | _ \<Rightarrow> Inl TypeError)"

text \<open>Truth value of an object, as \<^verbatim>\<open>not x\<close> tests it.\<close>

fun truthy :: "pyval \<Rightarrow> bool" where
  "truthy PNone = False"
| "truthy (PBool b) = b"
| "truthy (PInt i) = (i \<noteq> 0)"
| "truthy (PStr s) = (s \<noteq> [])"
| "truthy (PList xs) = (xs \<noteq> [])"
| "truthy (PDict kvs) = (kvs \<noteq> [])"

text \<open>
  What \<^verbatim>\<open>list.extend\<close> iterates over: the elements of a list, the characters of a
  string, the keys of a dictionary; anything else is not iterable.
\<close>

fun py_iter :: "pyval \<Rightarrow> exn + pyval list" where
  "py_iter (PList xs) = Inr xs"
| "py_iter (PStr s) = Inr (map (\<lambda>c. PStr [c]) s)"
| "py_iter (PDict kvs) = Inr (map (\<lambda>kv. PStr (fst kv)) kvs)"
| "py_iter PNone = Inl TypeError"
| "py_iter (PBool b) = Inl TypeError"
| "py_iter (PInt i) = Inl TypeError"

text \<open>\<^verbatim>\<open>x == n\<close> for an integer literal \<open>n\<close> (a boolean compares as 0 or 1).\<close>

fun py_eq_int :: "pyval \<Rightarrow> int \<Rightarrow> bool" where
  "py_eq_int (PInt i) n = (i = n)"
| "py_eq_int (PBool b) n = ((if b then 1 else 0) = n)"
| "py_eq_int PNone n = False"
| "py_eq_int (PStr s) n = False"
| "py_eq_int (PList xs) n = False"
| "py_eq_int (PDict kvs) n = False"

text \<open>
  Printed text. \<open>Lit s\<close> is the characters \<open>s\<close>; \<open>Str v\<close> stands for the characters of
  \<^verbatim>\<open>str(v)\<close> where the model does not spell them out (numbers, lists, dictionaries).
\<close>

datatype piece = Lit string | Str pyval

type_synonym printed = "piece list"

fun py_str :: "pyval \<Rightarrow> printed" where
  "py_str (PStr s) = [Lit s]"
| "py_str PNone = [Lit ''None'']"
| "py_str (PBool b) = [Lit (if b then ''True'' else ''False'')]"
| "py_str v = [Str v]"

fun join_lits :: "printed \<Rightarrow> printed" where
  "join_lits (Lit a # Lit b # ps) = join_lits (Lit (a @ b) # ps)"
| "join_lits (p # ps) = p # join_lits ps"
| "join_lits [] = []"

text \<open>
  \<^verbatim>\<open>fmt % args\<close> for the one directive the program uses, \<^verbatim>\<open>%s\<close>. Too few or too many
  arguments raise \<^verbatim>\<open>TypeError\<close>; any other directive is outside the model and is
  reported as \<^verbatim>\<open>ValueError\<close>.
\<close>

fun py_format :: "string \<Rightarrow> pyval list \<Rightarrow> exn + printed" where
  "py_format [] args = (if args = [] then Inr [] else Inl TypeError)"
| "py_format (c # cs) args =
     (if c = CHR ''%'' then
        (case cs of
           [] \<Rightarrow> Inl ValueError
         | d # rest \<Rightarrow>
             if d = CHR ''s'' then
               (case args of
                  [] \<Rightarrow> Inl TypeError
                | a # as \<Rightarrow>
                    (case py_format rest as of
                       Inl e \<Rightarrow> Inl e
                     | Inr t \<Rightarrow> Inr (py_str a @ t)))
             else Inl ValueError)
      else
        (case py_format cs args of
           Inl e \<Rightarrow> Inl e
         | Inr t \<Rightarrow> Inr (Lit [c] # t)))"

fun sep_by :: "printed \<Rightarrow> printed list \<Rightarrow> printed" where
  "sep_by s [] = []"
| "sep_by s [t] = t"
| "sep_by s (t # u # ts) = t @ s @ sep_by s (u # ts)"

section \<open>The remote service and the observable world\<close>

text \<open>
  A request is what is built before \<^verbatim>\<open>.execute()\<close>: the resource method and its
  keyword arguments.
\<close>

datatype request =
    CoursesCreate pyval
  | CoursesGet string
  | CoursesList pyval int
  | CoursesUpdate string pyval
  | CoursesPatch string string pyval
  | AliasesCreate string pyval
  | TeachersCreate string pyval
  | StudentsCreate string string pyval
  | CourseWorkCreate string pyval

text \<open>
  The world records every request executed and every line printed, in order. The
  service is a collaborator: its answer to a request may depend on everything it was
  asked before, so a server is a function of the request history (the request being
  answered is the last one).
\<close>

record world =
  calls :: "request list"
  out :: "printed list"

type_synonym server = "request list \<Rightarrow> exn + pyval"

definition execute :: "server \<Rightarrow> request \<Rightarrow> world \<Rightarrow> world \<times> (exn + pyval)" where
  "execute srv rq w = (let w' = w\<lparr>calls := calls w @ [rq]\<rparr> in (w', srv (calls w')))"

text \<open>\<^verbatim>\<open>print(a, b, ...)\<close>: the arguments' texts separated by one space, on one line.\<close>

definition py_print :: "printed list \<Rightarrow> world \<Rightarrow> world" where
  "py_print args w = w\<lparr>out := out w @ [join_lits (sep_by [Lit '' ''] args)]\<rparr>"

section \<open>The snippets\<close>

text \<open>
  Each method returns the world it leaves and either the exception that escapes it or
  \<open>Inr ()\<close> for a normal return (every method returns \<^verbatim>\<open>None\<close>).
\<close>

definition get_course :: "server \<Rightarrow> world \<Rightarrow> world \<times> (exn + unit)" where
  "get_course srv w =
     (let course_id = ''123456'' in
      case execute srv (CoursesGet course_id) w of
        (w1, Inr course) \<Rightarrow>
          (case py_get course ''name'' PNone of
             Inl e \<Rightarrow> (w1, Inl e)
           | Inr name \<Rightarrow>
               (py_print [py_str (PStr ''Course \"{%s}\" found.''), py_str name] w1, Inr ()))
      | (w1, Inl e) \<Rightarrow>
          (case e of
             HttpError st c \<Rightarrow>
               (case json_loads c of
                  Inl e' \<Rightarrow> (w1, Inl e')
                | Inr body \<Rightarrow>
                    (case py_get body ''error'' PNone of
                       Inl e' \<Rightarrow> (w1, Inl e')
                     | Inr error \<Rightarrow>
                         (case py_get error ''code'' PNone of
                            Inl e' \<Rightarrow> (w1, Inl e')
                          | Inr code \<Rightarrow>
                              if py_eq_int code 404 then
                                (py_print [py_str (PStr ''Course with ID \"{%s}\" not found.''),
                                           py_str (PStr course_id)] w1, Inr ())
                              else (w1, Inl e))))
           | _ \<Rightarrow> (w1, Inl e)))"

text \<open>
  The \<^verbatim>\<open>while True\<close> loop of \<^verbatim>\<open>list_courses\<close>, with the accumulator \<^verbatim>\<open>courses\<close> and
  the current \<^verbatim>\<open>page_token\<close>. The source has no bound on the number of rounds, so
  the loop is a partial function: \<open>None\<close> means that it never leaves the loop.
\<close>

partial_function (option) list_courses_loop ::
  "server \<Rightarrow> world \<Rightarrow> pyval list \<Rightarrow> pyval \<Rightarrow> (world \<times> (exn + pyval list)) option" where
  "list_courses_loop srv w courses page_token =
     (case execute srv (CoursesList page_token 100) w of
        (w1, Inl e) \<Rightarrow> Some (w1, Inl e)
      | (w1, Inr response) \<Rightarrow>
          (case py_get response ''courses'' (PList []) of
             Inl e \<Rightarrow> Some (w1, Inl e)
           | Inr page \<Rightarrow>
               (case py_iter page of
                  Inl e \<Rightarrow> Some (w1, Inl e)
                | Inr items \<Rightarrow>
                    (case py_get response ''nextPageToken'' PNone of
                       Inl e \<Rightarrow> Some (w1, Inl e)
                     | Inr page_token' \<Rightarrow>
                         if \<not> truthy page_token' then Some (w1, Inr (courses @ items))
                         else list_courses_loop srv w1 (courses @ items) page_token'))))"

text \<open>The \<^verbatim>\<open>for course in courses\<close> loop that prints name and id of each course.\<close>

fun print_courses :: "pyval list \<Rightarrow> world \<Rightarrow> world \<times> (exn + unit)" where
  "print_courses [] w = (w, Inr ())"
| "print_courses (course # rest) w =
     (case py_get course ''name'' PNone of
        Inl e \<Rightarrow> (w, Inl e)
      | Inr name \<Rightarrow>
          (case py_get course ''id'' PNone of
             Inl e \<Rightarrow> (w, Inl e)
           | Inr ident \<Rightarrow> print_courses rest (py_print [py_str name, py_str ident] w)))"

definition list_courses :: "server \<Rightarrow> world \<Rightarrow> (world \<times> (exn + unit)) option" where
  "list_courses srv w =
     (case list_courses_loop srv w [] PNone of
        None \<Rightarrow> None
      | Some (w1, Inl e) \<Rightarrow> Some (w1, Inl e)
      | Some (w1, Inr courses) \<Rightarrow>
          if courses = [] then Some (py_print [py_str (PStr ''No courses found.'')] w1, Inr ())
          else Some (print_courses courses (py_print [py_str (PStr ''Courses:'')] w1)))"

definition create_course :: "server \<Rightarrow> world \<Rightarrow> world \<times> (exn + unit)" where
  "create_course srv w =
     (let course = PDict
        [(''name'', PStr ''10th Grade Biology''),
         (''section'', PStr ''Period 2''),
         (''descriptionHeading'', PStr ''Welcome to 10th Grade Biology''),
         (''description'', PStr (''We'll be learning about about the'' @ [CHR 0x0A] @
            ''                         structure of living creatures from a'' @ [CHR 0x0A] @
            ''                         combination of textbooks, guest lectures,'' @ [CHR 0x0A] @
            ''                         and lab work. Expect to be excited!'')),
         (''room'', PStr ''301''),
         (''ownerId'', PStr ''me''),
         (''courseState'', PStr ''PROVISIONED'')] in
      case execute srv (CoursesCreate course) w of
        (w1, Inl e) \<Rightarrow> (w1, Inl e)
      | (w1, Inr course) \<Rightarrow>
          (case py_get course ''name'' PNone of
             Inl e \<Rightarrow> (w1, Inl e)
           | Inr name \<Rightarrow>
               (case py_get course ''id'' PNone of
                  Inl e \<Rightarrow> (w1, Inl e)
                | Inr ident \<Rightarrow>
                    (py_print [py_str (PStr ''Course created:''), py_str name, py_str ident] w1,
                     Inr ()))))"

definition update_course :: "server \<Rightarrow> world \<Rightarrow> world \<times> (exn + unit)" where
  "update_course srv w =
     (let course_id = ''123456'' in
      case execute srv (CoursesGet course_id) w of
        (w1, Inl e) \<Rightarrow> (w1, Inl e)
      | (w1, Inr course) \<Rightarrow>
          (case py_setitem course ''section'' (PStr ''Period 3'') of
             Inl e \<Rightarrow> (w1, Inl e)
           | Inr course \<Rightarrow>
               (case py_setitem course ''room'' (PStr ''302'') of
                  Inl e \<Rightarrow> (w1, Inl e)
                | Inr course \<Rightarrow>
                    (case execute srv (CoursesUpdate course_id course) w1 of
                       (w2, Inl e) \<Rightarrow> (w2, Inl e)
                     | (w2, Inr course) \<Rightarrow>
                         (case py_get course ''name'' PNone of
                            Inl e \<Rightarrow> (w2, Inl e)
                          | Inr name \<Rightarrow>
                              (case py_format ''Course %s updated.'' [name] of
                                 Inl e \<Rightarrow> (w2, Inl e)
                               | Inr s \<Rightarrow> (py_print [s] w2, Inr ())))))))"

definition patch_course :: "server \<Rightarrow> world \<Rightarrow> world \<times> (exn + unit)" where
  "patch_course srv w =
     (let course_id = ''123456'';
          course = PDict [(''section'', PStr ''Period 3''), (''room'', PStr ''302'')] in
      case execute srv (CoursesPatch course_id ''section,room'' course) w of
        (w1, Inl e) \<Rightarrow> (w1, Inl e)
      | (w1, Inr course) \<Rightarrow>
          (case py_get course ''name'' PNone of
             Inl e \<Rightarrow> (w1, Inl e)
           | Inr name \<Rightarrow>
               (case py_format ''Course \"%s\" updated.'' [name] of
                  Inl e \<Rightarrow> (w1, Inl e)
                | Inr s \<Rightarrow> (py_print [s] w1, Inr ()))))"

text \<open>
  The two alias snippets catch \<^verbatim>\<open>errors.HttpError\<close> without looking at it; the response
  of a successful call is only bound to a local name.
\<close>

definition add_alias_new :: "server \<Rightarrow> world \<Rightarrow> world \<times> (exn + unit)" where
  "add_alias_new srv w =
     (let alias = ''d:school_math_101'';
          course = PDict
            [(''id'', PStr alias),
             (''name'', PStr ''Math 101''),
             (''section'', PStr ''Period 2''),
             (''description'', PStr ''Course Description''),
             (''room'', PStr ''301''),
             (''ownerId'', PStr ''me'')] in
      case execute srv (CoursesCreate course) w of
        (w1, Inr course) \<Rightarrow> (w1, Inr ())
      | (w1, Inl e) \<Rightarrow>
          (case e of
             HttpError st c \<Rightarrow> (py_print [py_str (PStr ''Course Creation Failed'')] w1, Inr ())
           | _ \<Rightarrow> (w1, Inl e)))"

text \<open>
  In the source the methods from \<^verbatim>\<open>add_teacher\<close> on are indented one level too deep:
  they are local functions defined at the end of \<^verbatim>\<open>add_alias_existing\<close> and never
  called there, so they add nothing to what \<^verbatim>\<open>add_alias_existing\<close> does. Their bodies
  are modelled below as functions of their own.
\<close>

definition add_alias_existing :: "server \<Rightarrow> world \<Rightarrow> world \<times> (exn + unit)" where
  "add_alias_existing srv w =
     (let courseId = ''123456'';
          alias = ''d:school_math_101'';
          courseAlias = PDict [(''alias'', PStr alias)] in
      case execute srv (AliasesCreate courseId courseAlias) w of
        (w1, Inr courseAlias) \<Rightarrow> (w1, Inr ())
      | (w1, Inl e) \<Rightarrow>
          (case e of
             HttpError st c \<Rightarrow> (py_print [py_str (PStr ''Alias Creation Failed'')] w1, Inr ())
           | _ \<Rightarrow> (w1, Inl e)))"

definition add_teacher :: "server \<Rightarrow> world \<Rightarrow> world \<times> (exn + unit)" where
  "add_teacher srv w =
     (let course_id = ''123456'';
          teacher_email = ''alice@example.edu'';
          teacher = PDict [(''userId'', PStr teacher_email)] in
      case execute srv (TeachersCreate course_id teacher) w of
        (w1, Inr teacher) \<Rightarrow>
          (case py_get teacher ''profile'' PNone of
             Inl e \<Rightarrow> (w1, Inl e)
           | Inr profile \<Rightarrow>
               (case py_get profile ''name'' PNone of
                  Inl e \<Rightarrow> (w1, Inl e)
                | Inr name \<Rightarrow>
                    (case py_get name ''fullName'' PNone of
                       Inl e \<Rightarrow> (w1, Inl e)
                     | Inr fullName \<Rightarrow>
                         (case py_format
                                 ''User %s was added as a teacher to the course with ID %s''
                                 [fullName, PStr course_id] of
                            Inl e \<Rightarrow> (w1, Inl e)
                          | Inr s \<Rightarrow> (py_print [s] w1, Inr ())))))
      | (w1, Inl e) \<Rightarrow>
          (case e of
             HttpError st c \<Rightarrow>
               (case json_loads c of
                  Inl e' \<Rightarrow> (w1, Inl e')
                | Inr body \<Rightarrow>
                    (case py_get body ''error'' PNone of
                       Inl e' \<Rightarrow> (w1, Inl e')
                     | Inr error \<Rightarrow>
                         (case py_get error ''code'' PNone of
                            Inl e' \<Rightarrow> (w1, Inl e')
                          | Inr code \<Rightarrow>
                              if py_eq_int code 409 then
                                (case py_format
                                        ''User \"{%s}\" is already a member of this course.''
                                        [PStr teacher_email] of
                                   Inl e' \<Rightarrow> (w1, Inl e')
                                 | Inr s \<Rightarrow> (py_print [s] w1, Inr ()))
                              else (w1, Inl e))))
           | _ \<Rightarrow> (w1, Inl e)))"

definition add_student :: "server \<Rightarrow> world \<Rightarrow> world \<times> (exn + unit)" where
  "add_student srv w =
     (let course_id = ''123456'';
          enrollment_code = ''abcdef'';
          student = PDict [(''userId'', PStr ''me'')] in
      case execute srv (StudentsCreate course_id enrollment_code student) w of
        (w1, Inr student) \<Rightarrow>
          (case py_get student ''profile'' PNone of
             Inl e \<Rightarrow> (w1, Inl e)
           | Inr profile \<Rightarrow>
               (case py_get profile ''name'' PNone of
                  Inl e \<Rightarrow> (w1, Inl e)
                | Inr name \<Rightarrow>
                    (case py_get name ''fullName'' PNone of
                       Inl e \<Rightarrow> (w1, Inl e)
                     | Inr fullName \<Rightarrow>
                         (case py_format
                                 (''User {%s} was enrolled as a student in'' @ [CHR 0x0A] @
                                  ''                       the course with ID \"{%s}\"'')
                                 [fullName, PStr course_id] of
                            Inl e \<Rightarrow> (w1, Inl e)
                          | Inr s \<Rightarrow> (py_print [s] w1, Inr ())))))
      | (w1, Inl e) \<Rightarrow>
          (case e of
             HttpError st c \<Rightarrow>
               (case json_loads c of
                  Inl e' \<Rightarrow> (w1, Inl e')
                | Inr body \<Rightarrow>
                    (case py_get body ''error'' PNone of
                       Inl e' \<Rightarrow> (w1, Inl e')
                     | Inr error \<Rightarrow>
                         (case py_get error ''code'' PNone of
                            Inl e' \<Rightarrow> (w1, Inl e')
                          | Inr code \<Rightarrow>
                              if py_eq_int code 409 then
                                (py_print
                                   [py_str (PStr ''You are already a member of this course.'')] w1,
                                 Inr ())
                              else (w1, Inl e))))
           | _ \<Rightarrow> (w1, Inl e)))"

definition create_coursework :: "server \<Rightarrow> world \<Rightarrow> world \<times> (exn + unit)" where
  "create_coursework srv w =
     (let courseWork = PDict
        [(''title'', PStr ''Ant colonies''),
         (''description'', PStr (''Read the article about ant colonies'' @ [CHR 0x0A] @
            ''                                  and complete the quiz.'')),
         (''materials'', PList
            [PDict [(''link'', PDict [(''url'', PStr ''http://example.com/ant-colonies'')])],
             PDict [(''link'', PDict [(''url'', PStr ''http://example.com/ant-quiz'')])]]),
         (''workType'', PStr ''ASSIGNMENT''),
         (''state'', PStr ''PUBLISHED'')] in
      case execute srv (CourseWorkCreate ''123456'' courseWork) w of
        (w1, Inl e) \<Rightarrow> (w1, Inl e)
      | (w1, Inr courseWork) \<Rightarrow>
          (case py_get courseWork ''id'' PNone of
             Inl e \<Rightarrow> (w1, Inl e)
           | Inr ident \<Rightarrow>
               (case py_format ''Assignment created with ID {%s}'' [ident] of
                  Inl e \<Rightarrow> (w1, Inl e)
                | Inr s \<Rightarrow> (py_print [s] w1, Inr ()))))"

section \<open>Servers and worlds used to exercise the snippets\<close>

definition world0 :: world where
  "world0 = \<lparr>calls = [], out = []\<rparr>"

text \<open>A transport that raises the same exception on every request.\<close>

definition fail_server :: "exn \<Rightarrow> server" where
  "fail_server e log = Inl e"

definition error_body :: "int \<Rightarrow> pyval" where
  "error_body n = PDict [(''error'', PDict [(''code'', PInt n), (''message'', PStr ''failed'')])]"

text \<open>A fake service that answers the \<open>k\<close>-th request with the \<open>k\<close>-th entry of a script.\<close>

definition fake_server :: "(exn + pyval) list \<Rightarrow> server" where
  "fake_server rs log =
     (if log = [] \<or> length rs < length log then Inl (OtherError ''no response left'')
      else rs ! (length log - 1))"

definition course_a :: pyval where
  "course_a = PDict [(''id'', PStr ''2''), (''name'', PStr ''Biology'')]"

definition course_b :: pyval where
  "course_b = PDict [(''id'', PStr ''1''), (''name'', PStr ''Art'')]"

definition three_pages :: server where
  "three_pages = fake_server
     [Inr (PDict [(''courses'', PList [course_a, course_b]), (''nextPageToken'', PStr ''t1'')]),
      Inr (PDict [(''courses'', PList [course_a]), (''nextPageToken'', PStr ''t2'')]),
      Inr (PDict [(''courses'', PList [course_b])])]"

definition one_page :: server where
  "one_page = fake_server [Inr (PDict [(''courses'', PList [course_a, course_b])])]"

definition empty_page :: server where
  "empty_page = fake_server [Inr (PDict [(''courses'', PList [])])]"

definition endless_server :: server where
  "endless_server log =
     Inr (PDict [(''courses'', PList [course_a]), (''nextPageToken'', PStr ''more'')])"

text \<open>A service that answers every request with the same stored course.\<close>

definition stored_course :: pyval where
  "stored_course = PDict
     [(''id'', PStr ''123456''), (''name'', PStr ''Biology''), (''section'', PStr ''Period 2''),
      (''ownerId'', PStr ''me''), (''room'', PStr ''301'')]"

definition course_server :: server where
  "course_server log = Inr stored_course"







text \<open>A listing that fails on its third page, and a course whose update is refused.\<close>

definition third_page_fails :: server where
  "third_page_fails = fake_server
     [Inr (PDict [(''courses'', PList [course_a, course_b]), (''nextPageToken'', PStr ''t1'')]),
      Inr (PDict [(''courses'', PList [course_a]), (''nextPageToken'', PStr ''t2'')]),
      Inl (HttpError 503 (Decoded (error_body 503)))]"

definition update_refused :: server where
  "update_refused = fake_server
     [Inr stored_course, Inl (HttpError 500 (Decoded (error_body 500)))]"

section \<open>Vocabulary of the pagination properties\<close>

text \<open>
  \<open>is_page r items tok\<close>: the response \<open>r\<close> is a listing page that carries \<open>items\<close> and
  the next-page token \<open>tok\<close> (\<open>None\<close> when the field is absent).
\<close>

definition is_page :: "pyval \<Rightarrow> pyval list \<Rightarrow> pyval option \<Rightarrow> bool" where
  "is_page r items tok =
     (case r of
        PDict kvs \<Rightarrow> map_of kvs ''courses'' = Some (PList items) \<and> map_of kvs ''nextPageToken'' = tok
      | _ \<Rightarrow> False)"

text \<open>
  \<open>serves_pages srv log tok ps\<close>: asked for the page at \<open>tok\<close> after the history \<open>log\<close>,
  and then for each token it hands out, the server returns the pages \<open>ps\<close> one after
  the other; every page but the last carries a non-empty token, the last carries none.
\<close>

fun serves_pages ::
  "server \<Rightarrow> request list \<Rightarrow> pyval \<Rightarrow> (pyval list \<times> pyval option) list \<Rightarrow> bool" where
  "serves_pages srv log tok [] = False"
| "serves_pages srv log tok ((items, nxt) # ps) =
     (case srv (log @ [CoursesList tok 100]) of
        Inl e \<Rightarrow> False
      | Inr r \<Rightarrow>
          is_page r items nxt \<and>
          (case nxt of
             None \<Rightarrow> ps = []
           | Some t \<Rightarrow> truthy t \<and> serves_pages srv (log @ [CoursesList tok 100]) t ps))"

text \<open>The requests that fetching these pages takes, starting from the token \<open>tok\<close>.\<close>

fun page_requests :: "pyval \<Rightarrow> (pyval list \<times> pyval option) list \<Rightarrow> request list" where
  "page_requests tok [] = []"
| "page_requests tok ((items, nxt) # ps) =
     CoursesList tok 100 # (case nxt of None \<Rightarrow> [] | Some t \<Rightarrow> page_requests t ps)"

text \<open>
  The next-page token that the loop reads from the answer to a fetch, when there is
  one to read: the fetch succeeded and the response is a dictionary.
\<close>

definition next_token :: "exn + pyval \<Rightarrow> pyval option" where
  "next_token r =
     (case r of
        Inl e \<Rightarrow> None
      | Inr resp \<Rightarrow> (case py_get resp ''nextPageToken'' PNone of Inl e \<Rightarrow> None | Inr t \<Rightarrow> Some t))"

definition token_more :: "pyval option \<Rightarrow> bool" where
  "token_more t = (case t of None \<Rightarrow> False | Some v \<Rightarrow> truthy v)"

definition token_last :: "pyval option \<Rightarrow> bool" where
  "token_last t = (case t of None \<Rightarrow> False | Some v \<Rightarrow> \<not> truthy v)"

text \<open>
  \<open>stops_at_first_falsy srv w w'\<close>: of the fetches made between the worlds \<open>w\<close> and
  \<open>w'\<close>, the last one returned an absent or empty token and each one before it a
  non-empty token.
\<close>

definition stops_at_first_falsy :: "server \<Rightarrow> world \<Rightarrow> world \<Rightarrow> bool" where
  "stops_at_first_falsy srv w w' =
     (token_last (next_token (srv (calls w'))) \<and>
      list_all (\<lambda>k. token_more (next_token (srv (take k (calls w')))))
        [Suc (length (calls w))..<length (calls w')])"

text \<open>A server that returns a well-formed page with a non-empty token, whatever it is asked.\<close>

definition endless :: "server \<Rightarrow> bool" where
  "endless srv \<longleftrightarrow>
     (\<forall>log. \<exists>resp page items t.
        srv log = Inr resp \<and> py_get resp ''courses'' (PList []) = Inr page \<and>
        py_iter page = Inr items \<and> py_get resp ''nextPageToken'' PNone = Inr t \<and> truthy t)"

text \<open>
  What one round of the loop reads from the server after the history \<open>log\<close>, when the
  round runs through: the items of the page and its next-page token.
\<close>

definition fetch_page :: "server \<Rightarrow> request list \<Rightarrow> pyval \<Rightarrow> (pyval list \<times> pyval) option" where
  "fetch_page srv log tok =
     (case srv (log @ [CoursesList tok 100]) of
        Inl e \<Rightarrow> None
      | Inr resp \<Rightarrow>
          (case py_get resp ''courses'' (PList []) of
             Inl e \<Rightarrow> None
           | Inr page \<Rightarrow>
               (case py_iter page of
                  Inl e \<Rightarrow> None
                | Inr items \<Rightarrow>
                    (case py_get resp ''nextPageToken'' PNone of
                       Inl e \<Rightarrow> None
                     | Inr t \<Rightarrow> Some (items, t)))))"

text \<open>
  \<open>ends_after srv log tok n\<close>: followed from the token \<open>tok\<close>, the server serves \<open>n\<close> pages,
  the first \<open>n - 1\<close> with a non-empty token and the \<open>n\<close>-th with an absent or empty one.
  \<open>fails_after srv log tok n e\<close>: it serves \<open>n\<close> pages with a non-empty token and then
  raises \<open>e\<close>.
\<close>

fun ends_after :: "server \<Rightarrow> request list \<Rightarrow> pyval \<Rightarrow> nat \<Rightarrow> bool" where
  "ends_after srv log tok 0 = False"
| "ends_after srv log tok (Suc n) =
     (case fetch_page srv log tok of
        None \<Rightarrow> False
      | Some (items, t) \<Rightarrow>
          if truthy t then ends_after srv (log @ [CoursesList tok 100]) t n else n = 0)"

fun fails_after :: "server \<Rightarrow> request list \<Rightarrow> pyval \<Rightarrow> nat \<Rightarrow> exn \<Rightarrow> bool" where
  "fails_after srv log tok 0 e = (srv (log @ [CoursesList tok 100]) = Inl e)"
| "fails_after srv log tok (Suc n) e =
     (case fetch_page srv log tok of
        None \<Rightarrow> False
      | Some (items, t) \<Rightarrow> truthy t \<and> fails_after srv (log @ [CoursesList tok 100]) t n e)"

section \<open>The pagination loop\<close>

lemma loop_stop:
  assumes "srv (calls w @ [CoursesList tok 100]) = Inr resp"
    and "py_get resp ''courses'' (PList []) = Inr page"
    and "py_iter page = Inr items"
    and "py_get resp ''nextPageToken'' PNone = Inr t"
    and "\<not> truthy t"
  shows "list_courses_loop srv w cs tok =
           Some (w\<lparr>calls := calls w @ [CoursesList tok 100]\<rparr>, Inr (cs @ items))"
  by (subst list_courses_loop.simps) (simp add: execute_def Let_def assms)

lemma loop_more:
  assumes "srv (calls w @ [CoursesList tok 100]) = Inr resp"
    and "py_get resp ''courses'' (PList []) = Inr page"
    and "py_iter page = Inr items"
    and "py_get resp ''nextPageToken'' PNone = Inr t"
    and "truthy t"
  shows "list_courses_loop srv w cs tok =
           list_courses_loop srv (w\<lparr>calls := calls w @ [CoursesList tok 100]\<rparr>) (cs @ items) t"
  by (subst list_courses_loop.simps) (simp add: execute_def Let_def assms)

lemma loop_fetch_stop:
  assumes "fetch_page srv (calls w) tok = Some (items, t)" and "\<not> truthy t"
  shows "list_courses_loop srv w cs tok =
           Some (w\<lparr>calls := calls w @ [CoursesList tok 100]\<rparr>, Inr (cs @ items))"
  using assms
  by (subst list_courses_loop.simps)
     (auto simp: fetch_page_def execute_def Let_def split: sum.splits)

lemma loop_fetch_more:
  assumes "fetch_page srv (calls w) tok = Some (items, t)" and "truthy t"
  shows "list_courses_loop srv w cs tok =
           list_courses_loop srv (w\<lparr>calls := calls w @ [CoursesList tok 100]\<rparr>) (cs @ items) t"
  using assms
  by (subst list_courses_loop.simps)
     (auto simp: fetch_page_def execute_def Let_def split: sum.splits)

lemma loop_ends_after:
  "ends_after srv (calls w) tok n \<Longrightarrow>
   \<exists>w' res. list_courses_loop srv w cs tok = Some (w', Inr res) \<and>
            length (calls w') = length (calls w) + n \<and> out w' = out w"
proof (induction n arbitrary: w cs tok)
  case 0
  then show ?case by simp
next
  case (Suc n)
  from Suc.prems obtain items t where
    f: "fetch_page srv (calls w) tok = Some (items, t)"
    and r: "if truthy t then ends_after srv (calls w @ [CoursesList tok 100]) t n else n = 0"
    by (auto split: option.splits)
  let ?w1 = "w\<lparr>calls := calls w @ [CoursesList tok 100]\<rparr>"
  show ?case
  proof (cases "truthy t")
    case False
    with r have "n = 0" by simp
    with loop_fetch_stop [OF f False, of cs] show ?thesis by simp
  next
    case True
    with r have "ends_after srv (calls ?w1) t n" by simp
    from Suc.IH [OF this, of "cs @ items"] obtain w' res where
      "list_courses_loop srv ?w1 (cs @ items) t = Some (w', Inr res)"
      "length (calls w') = length (calls ?w1) + n" "out w' = out ?w1"
      by blast
    with loop_fetch_more [OF f True, of cs] show ?thesis by simp
  qed
qed

lemma loop_fails_after:
  "fails_after srv (calls w) tok n e \<Longrightarrow>
   \<exists>w'. list_courses_loop srv w cs tok = Some (w', Inl e) \<and>
         length (calls w') = length (calls w) + Suc n \<and> out w' = out w"
proof (induction n arbitrary: w cs tok)
  case 0
  then have "list_courses_loop srv w cs tok =
               Some (w\<lparr>calls := calls w @ [CoursesList tok 100]\<rparr>, Inl e)"
    by (subst list_courses_loop.simps) (simp add: execute_def Let_def)
  then show ?case by simp
next
  case (Suc n)
  from Suc.prems obtain items t where
    f: "fetch_page srv (calls w) tok = Some (items, t)" and t: "truthy t"
    and r: "fails_after srv (calls w @ [CoursesList tok 100]) t n e"
    by (auto split: option.splits)
  let ?w1 = "w\<lparr>calls := calls w @ [CoursesList tok 100]\<rparr>"
  from r have "fails_after srv (calls ?w1) t n e" by simp
  from Suc.IH [OF this, of "cs @ items"] obtain w' where
    "list_courses_loop srv ?w1 (cs @ items) t = Some (w', Inl e)"
    "length (calls w') = length (calls ?w1) + Suc n" "out w' = out ?w1"
    by blast
  with loop_fetch_more [OF f t, of cs] show ?case by simp
qed

lemma is_page_get:
  assumes "is_page r items nxt"
  shows "py_get r ''courses'' (PList []) = Inr (PList items)"
    and "py_get r ''nextPageToken'' PNone = Inr (case nxt of None \<Rightarrow> PNone | Some t \<Rightarrow> t)"
  using assms by (auto simp: is_page_def py_get_def split: pyval.splits)

lemma loop_serves_pages:
  "serves_pages srv (calls w) tok ps \<Longrightarrow>
   list_courses_loop srv w cs tok =
     Some (w\<lparr>calls := calls w @ page_requests tok ps\<rparr>, Inr (cs @ concat (map fst ps)))"
proof (induction ps arbitrary: w cs tok)
  case Nil
  then show ?case by simp
next
  case (Cons p ps)
  obtain items nxt where p: "p = (items, nxt)" by (cases p)
  from Cons.prems p obtain r where
    r: "srv (calls w @ [CoursesList tok 100]) = Inr r" and pg: "is_page r items nxt"
    and rest: "case nxt of None \<Rightarrow> ps = []
               | Some t \<Rightarrow> truthy t \<and> serves_pages srv (calls w @ [CoursesList tok 100]) t ps"
    by (auto split: sum.splits)
  have it: "py_iter (PList items) = Inr items" by simp
  show ?case
  proof (cases nxt)
    case None
    with rest have "ps = []" by simp
    moreover have "list_courses_loop srv w cs tok =
        Some (w\<lparr>calls := calls w @ [CoursesList tok 100]\<rparr>, Inr (cs @ items))"
      using r is_page_get [OF pg] None
      by (intro loop_stop [where resp = r and page = "PList items" and t = PNone]) simp_all
    ultimately show ?thesis using p None by simp
  next
    case (Some t)
    let ?w1 = "w\<lparr>calls := calls w @ [CoursesList tok 100]\<rparr>"
    from rest Some have t: "truthy t" and sp: "serves_pages srv (calls ?w1) t ps" by simp_all
    have "list_courses_loop srv w cs tok = list_courses_loop srv ?w1 (cs @ items) t"
      using r is_page_get [OF pg] Some t
      by (intro loop_more [where resp = r and page = "PList items"]) simp_all
    also have "\<dots> = Some (?w1\<lparr>calls := calls ?w1 @ page_requests t ps\<rparr>,
                          Inr ((cs @ items) @ concat (map fst ps)))"
      by (rule Cons.IH [OF sp])
    finally show ?thesis using p Some by simp
  qed
qed

lemma loop_some_not_endless:
  assumes "list_courses_loop srv w cs tok = Some y"
  shows "\<not> endless srv"
proof (rule list_courses_loop.raw_induct
         [where P = "\<lambda>srv w cs tok y. \<not> endless srv", OF _ assms], goal_cases)
  case (1 f srv w cs tok y)
  show ?case
  proof
    assume e: "endless srv"
    then obtain resp page items t where
      "srv (calls w @ [CoursesList tok 100]) = Inr resp"
      "py_get resp ''courses'' (PList []) = Inr page"
      "py_iter page = Inr items" "py_get resp ''nextPageToken'' PNone = Inr t" "truthy t"
      unfolding endless_def by blast
    with 1(2) have "f srv (w\<lparr>calls := calls w @ [CoursesList tok 100]\<rparr>) (cs @ items) t = Some y"
      by (simp add: execute_def Let_def)
    from 1(1) [OF this] e show False by simp
  qed
qed

lemma loop_trace:
  assumes "list_courses_loop srv w cs tok = Some y"
  shows "(\<exists>rqs. calls (fst y) = calls w @ CoursesList tok 100 # rqs) \<and>
         (\<forall>res. snd y = Inr res \<longrightarrow> stops_at_first_falsy srv w (fst y))"
proof (rule list_courses_loop.raw_induct
         [where P = "\<lambda>srv w cs tok y.
             (\<exists>rqs. calls (fst y) = calls w @ CoursesList tok 100 # rqs) \<and>
             (\<forall>res. snd y = Inr res \<longrightarrow> stops_at_first_falsy srv w (fst y))",
          OF _ assms], goal_cases)
  case (1 f srv w cs tok y)
  let ?w1 = "w\<lparr>calls := calls w @ [CoursesList tok 100]\<rparr>"
  from 1(2) consider
      (err) e where "y = (?w1, Inl e)"
    | (stop) res where "y = (?w1, Inr res)" "token_last (next_token (srv (calls ?w1)))"
    | (more) cs' t where "f srv ?w1 cs' t = Some y" "token_more (next_token (srv (calls ?w1)))"
    by (auto simp: execute_def Let_def next_token_def token_last_def token_more_def
             split: sum.splits if_splits)
  then show ?case
  proof cases
    case err
    then show ?thesis by simp
  next
    case stop
    then show ?thesis by (simp add: stops_at_first_falsy_def)
  next
    case more
    from 1(1) [OF more(1)] obtain rqs where
      ext: "calls (fst y) = calls ?w1 @ CoursesList t 100 # rqs"
      and ih: "\<forall>res. snd y = Inr res \<longrightarrow> stops_at_first_falsy srv ?w1 (fst y)"
      by blast
    have "stops_at_first_falsy srv w (fst y)" if "snd y = Inr res" for res
    proof -
      from ih that have s: "stops_at_first_falsy srv ?w1 (fst y)" by blast
      have first: "take (Suc (length (calls w))) (calls (fst y)) = calls ?w1"
        using ext by simp
      have split: "[Suc (length (calls w))..<length (calls (fst y))] =
                   Suc (length (calls w)) # [Suc (length (calls ?w1))..<length (calls (fst y))]"
      proof -
        have lt: "Suc (length (calls w)) < length (calls (fst y))" using ext by simp
        have l1: "length (calls ?w1) = Suc (length (calls w))" by simp
        show ?thesis by (subst upt_conv_Cons [OF lt]) (simp only: l1)
      qed
      show ?thesis
        using s more(2) first unfolding stops_at_first_falsy_def split by simp
    qed
    with ext show ?thesis by auto
  qed
qed

text \<open>
  Claim C1. When the service returns the pages \<open>P1..Pn\<close> one after the other, each but the
  last with a non-empty next-page token, the loop of \<open>list_courses\<close> accumulates exactly
  \<open>items_1 @ ... @ items_n\<close>, in the order served: nothing is reordered or dropped.
\<close>

theorem list_courses_concatenates_pages:
  assumes "serves_pages srv (calls w) PNone ps"
  shows "list_courses_loop srv w [] PNone =
           Some (w\<lparr>calls := calls w @ page_requests PNone ps\<rparr>, Inr (concat (map fst ps)))"
  using loop_serves_pages [OF assms, of "[]"] by simp

theorem list_courses_concatenates_pages_witness:
  "serves_pages three_pages (calls world0) PNone
     [([course_a, course_b], Some (PStr ''t1'')), ([course_a], Some (PStr ''t2'')),
      ([course_b], None)] \<and>
   list_courses_loop three_pages world0 [] PNone =
     Some (\<lparr>calls = [CoursesList PNone 100, CoursesList (PStr ''t1'') 100,
                      CoursesList (PStr ''t2'') 100],
            out = []\<rparr>,
           Inr [course_a, course_b, course_a, course_b])"
proof -
  have h: "serves_pages three_pages (calls world0) PNone
     [([course_a, course_b], Some (PStr ''t1'')), ([course_a], Some (PStr ''t2'')),
      ([course_b], None)]"
    by (simp add: three_pages_def fake_server_def world0_def is_page_def)
  from list_courses_concatenates_pages [OF h] h show ?thesis
    by (simp add: world0_def)
qed

text \<open>
  Claim C7. If the first page fetched carries no next-page token, the loop returns that
  page's items after exactly one fetch.
\<close>

theorem single_page_one_fetch:
  assumes "srv (calls w @ [CoursesList PNone 100]) = Inr resp"
    and "py_get resp ''courses'' (PList []) = Inr (PList items)"
    and "py_get resp ''nextPageToken'' PNone = Inr PNone"
  shows "list_courses_loop srv w [] PNone =
           Some (w\<lparr>calls := calls w @ [CoursesList PNone 100]\<rparr>, Inr items)"
  using assms
  by (intro loop_stop [where resp = resp and page = "PList items" and t = PNone and cs = "[]",
        simplified]) simp_all

theorem single_page_one_fetch_witness:
  "one_page (calls world0 @ [CoursesList PNone 100]) =
     Inr (PDict [(''courses'', PList [course_a, course_b])]) \<and>
   length [course_a, course_b] = 2 \<and>
   list_courses_loop one_page world0 [] PNone =
     Some (\<lparr>calls = [CoursesList PNone 100], out = []\<rparr>, Inr [course_a, course_b])"
proof -
  have h: "one_page (calls world0 @ [CoursesList PNone 100]) =
     Inr (PDict [(''courses'', PList [course_a, course_b])])"
    by (simp add: one_page_def fake_server_def world0_def)
  from single_page_one_fetch
         [where srv = one_page and w = world0 and items = "[course_a, course_b]"
            and resp = "PDict [(''courses'', PList [course_a, course_b])]"] h
  show ?thesis by (simp add: py_get_def world0_def)
qed

text \<open>
  Claim C8. If the fetch returns zero items and no token, the accumulated result is empty
  and \<open>list_courses\<close> prints "No courses found." instead of a list of courses.
\<close>

theorem empty_listing_reports_no_courses:
  assumes "srv (calls w @ [CoursesList PNone 100]) = Inr resp"
    and "py_get resp ''courses'' (PList []) = Inr (PList [])"
    and "py_get resp ''nextPageToken'' PNone = Inr PNone"
  shows "list_courses_loop srv w [] PNone =
           Some (w\<lparr>calls := calls w @ [CoursesList PNone 100]\<rparr>, Inr []) \<and>
         list_courses srv w =
           Some (w\<lparr>calls := calls w @ [CoursesList PNone 100],
                   out := out w @ [[Lit ''No courses found.'']]\<rparr>, Inr ())"
proof -
  have l: "list_courses_loop srv w [] PNone =
           Some (w\<lparr>calls := calls w @ [CoursesList PNone 100]\<rparr>, Inr [])"
    using assms
    by (intro loop_stop [where resp = resp and page = "PList []" and t = PNone and cs = "[]"
          and items = "[]", simplified]) simp_all
  then show ?thesis by (simp add: list_courses_def py_print_def)
qed

theorem empty_listing_reports_no_courses_witness:
  "empty_page (calls world0 @ [CoursesList PNone 100]) = Inr (PDict [(''courses'', PList [])]) \<and>
   list_courses_loop empty_page world0 [] PNone =
     Some (\<lparr>calls = [CoursesList PNone 100], out = []\<rparr>, Inr []) \<and>
   list_courses empty_page world0 =
     Some (\<lparr>calls = [CoursesList PNone 100], out = [[Lit ''No courses found.'']]\<rparr>, Inr ())"
proof -
  have h: "empty_page (calls world0 @ [CoursesList PNone 100]) =
     Inr (PDict [(''courses'', PList [])])"
    by (simp add: empty_page_def fake_server_def world0_def)
  from empty_listing_reports_no_courses
         [where srv = empty_page and w = world0 and resp = "PDict [(''courses'', PList [])]"] h
  show ?thesis by (simp add: py_get_def world0_def)
qed

lemma map_of_dict_store: "map_of (dict_store k v kvs) = (map_of kvs)(k \<mapsto> v)"
  by (induction kvs) (auto simp: fun_eq_iff)

lemma filter_dict_store:
  "\<not> keep k \<Longrightarrow> filter (\<lambda>kv. keep (fst kv)) (dict_store k v kvs) = filter (\<lambda>kv. keep (fst kv)) kvs"
  by (induction kvs) auto

lemma loop_stops_on_last_token:
  assumes "token_last (next_token (srv (calls w @ [CoursesList tok 100])))"
  shows "\<exists>r. list_courses_loop srv w cs tok =
               Some (w\<lparr>calls := calls w @ [CoursesList tok 100]\<rparr>, r)"
  using assms
  by (subst list_courses_loop.simps)
     (auto simp: execute_def Let_def next_token_def token_last_def split: sum.splits)

lemma loop_returns_ends_after:
  assumes "list_courses_loop srv w cs tok = Some y"
  shows "(\<exists>rqs. calls (fst y) = calls w @ CoursesList tok 100 # rqs) \<and>
         (\<forall>res. snd y = Inr res \<longrightarrow>
            ends_after srv (calls w) tok (length (calls (fst y)) - length (calls w)))"
proof (rule list_courses_loop.raw_induct
         [where P = "\<lambda>srv w cs tok y.
             (\<exists>rqs. calls (fst y) = calls w @ CoursesList tok 100 # rqs) \<and>
             (\<forall>res. snd y = Inr res \<longrightarrow>
                ends_after srv (calls w) tok (length (calls (fst y)) - length (calls w)))",
          OF _ assms], goal_cases)
  case (1 f srv w cs tok y)
  let ?w1 = "w\<lparr>calls := calls w @ [CoursesList tok 100]\<rparr>"
  from 1(2) consider
      (err) e where "y = (?w1, Inl e)"
    | (stop) items t where "y = (?w1, Inr (cs @ items))"
        "fetch_page srv (calls w) tok = Some (items, t)" "\<not> truthy t"
    | (more) items t where "f srv ?w1 (cs @ items) t = Some y"
        "fetch_page srv (calls w) tok = Some (items, t)" "truthy t"
    by (auto simp: execute_def Let_def fetch_page_def split: sum.splits if_splits)
  then show ?case
  proof cases
    case err
    then show ?thesis by simp
  next
    case stop
    then show ?thesis by simp
  next
    case more
    from 1(1) [OF more(1)] obtain rqs where
      ext: "calls (fst y) = calls ?w1 @ CoursesList t 100 # rqs"
      and ih: "\<forall>res. snd y = Inr res \<longrightarrow>
                 ends_after srv (calls ?w1) t (length (calls (fst y)) - length (calls ?w1))"
      by blast
    from ext have len: "length (calls (fst y)) - length (calls w) =
                        Suc (length (calls (fst y)) - length (calls ?w1))"
      by simp
    have "ends_after srv (calls w) tok (length (calls (fst y)) - length (calls w))"
      if "snd y = Inr res" for res
      using ih that more(2,3) unfolding len by simp
    with ext show ?thesis by auto
  qed
qed

text \<open>
  Claim C5. The loop returns its result after exactly \<open>n\<close> fetches if and only if the
  \<open>n\<close>-th page served is the first one whose next-page token is absent or empty: when the
  server serves such a sequence of pages the loop does return, after \<open>n\<close> fetches, and a
  run that returns a result made at least one fetch and stopped at the first absent or
  empty token. A page with an absent or empty token ends the loop at that fetch. Nothing
  bounds the number of rounds: against a server that puts a non-empty token on every
  page the loop never returns.
\<close>

theorem pagination_loop_termination:
  "(\<forall>n. ends_after srv (calls w) tok n \<longrightarrow>
        (\<exists>w' res. list_courses_loop srv w cs tok = Some (w', Inr res) \<and>
                  length (calls w') = length (calls w) + n)) \<and>
   (\<forall>w' res. list_courses_loop srv w cs tok = Some (w', Inr res) \<longrightarrow>
        ends_after srv (calls w) tok (length (calls w') - length (calls w))) \<and>
   (\<forall>y. list_courses_loop srv w cs tok = Some y \<longrightarrow>
        (\<exists>rqs. calls (fst y) = calls w @ CoursesList tok 100 # rqs) \<and>
        (\<forall>res. snd y = Inr res \<longrightarrow> stops_at_first_falsy srv w (fst y))) \<and>
   (token_last (next_token (srv (calls w @ [CoursesList tok 100]))) \<longrightarrow>
        (\<exists>r. list_courses_loop srv w cs tok =
               Some (w\<lparr>calls := calls w @ [CoursesList tok 100]\<rparr>, r))) \<and>
   (endless srv \<longrightarrow> list_courses_loop srv w cs tok = None)"
proof (intro conjI allI impI)
  fix n
  assume "ends_after srv (calls w) tok n"
  from loop_ends_after [OF this, of cs]
  show "\<exists>w' res. list_courses_loop srv w cs tok = Some (w', Inr res) \<and>
                  length (calls w') = length (calls w) + n"
    by blast
next
  fix w' res
  assume "list_courses_loop srv w cs tok = Some (w', Inr res)"
  from loop_returns_ends_after [OF this]
  show "ends_after srv (calls w) tok (length (calls w') - length (calls w))" by simp
next
  fix y
  assume y: "list_courses_loop srv w cs tok = Some y"
  from loop_trace [OF y]
  show "\<exists>rqs. calls (fst y) = calls w @ CoursesList tok 100 # rqs" by blast
  fix res
  assume "snd y = Inr res"
  with loop_trace [OF y] show "stops_at_first_falsy srv w (fst y)" by blast
next
  assume "token_last (next_token (srv (calls w @ [CoursesList tok 100])))"
  then show "\<exists>r. list_courses_loop srv w cs tok =
               Some (w\<lparr>calls := calls w @ [CoursesList tok 100]\<rparr>, r)"
    by (rule loop_stops_on_last_token)
next
  assume e: "endless srv"
  show "list_courses_loop srv w cs tok = None"
  proof (cases "list_courses_loop srv w cs tok")
    case None
    then show ?thesis .
  next
    case (Some y)
    from loop_some_not_endless [OF Some] e show ?thesis by simp
  qed
qed

theorem pagination_loop_termination_witness:
  "ends_after three_pages (calls world0) PNone (Suc (Suc (Suc 0))) \<and>
   (\<exists>w' res. list_courses_loop three_pages world0 [] PNone = Some (w', Inr res) \<and>
             length (calls w') = Suc (Suc (Suc 0))) \<and>
   list_courses_loop three_pages world0 [] PNone =
     Some (\<lparr>calls = [CoursesList PNone 100, CoursesList (PStr ''t1'') 100,
                      CoursesList (PStr ''t2'') 100],
            out = []\<rparr>,
           Inr [course_a, course_b, course_a, course_b]) \<and>
   stops_at_first_falsy three_pages world0
     \<lparr>calls = [CoursesList PNone 100, CoursesList (PStr ''t1'') 100,
               CoursesList (PStr ''t2'') 100],
      out = []\<rparr> \<and>
   token_last (next_token (one_page (calls world0 @ [CoursesList PNone 100]))) \<and>
   (\<exists>r. list_courses_loop one_page world0 [] PNone =
          Some (\<lparr>calls = [CoursesList PNone 100], out = []\<rparr>, r)) \<and>
   endless endless_server \<and>
   list_courses_loop endless_server world0 [] PNone = None"
proof -
  have "serves_pages three_pages (calls world0) PNone
     [([course_a, course_b], Some (PStr ''t1'')), ([course_a], Some (PStr ''t2'')),
      ([course_b], None)]"
    by (simp add: three_pages_def fake_server_def world0_def is_page_def)
  from loop_serves_pages [OF this, of "[]"]
  have run: "list_courses_loop three_pages world0 [] PNone =
     Some (\<lparr>calls = [CoursesList PNone 100, CoursesList (PStr ''t1'') 100,
                      CoursesList (PStr ''t2'') 100],
            out = []\<rparr>,
           Inr [course_a, course_b, course_a, course_b])"
    by (simp add: world0_def)
  have last: "token_last (next_token (one_page (calls world0 @ [CoursesList PNone 100])))"
    by (simp add: one_page_def fake_server_def world0_def next_token_def token_last_def
          py_get_def)
  have e: "endless endless_server"
    by (simp add: endless_def endless_server_def py_get_def)
  from pagination_loop_termination [of three_pages world0 PNone "[]"] run
  have a: "stops_at_first_falsy three_pages world0
     \<lparr>calls = [CoursesList PNone 100, CoursesList (PStr ''t1'') 100,
               CoursesList (PStr ''t2'') 100],
      out = []\<rparr>"
    by simp
  from pagination_loop_termination [of one_page world0 PNone "[]"] last
  have b: "\<exists>r. list_courses_loop one_page world0 [] PNone =
          Some (\<lparr>calls = [CoursesList PNone 100], out = []\<rparr>, r)"
    by (simp add: world0_def)
  from pagination_loop_termination [of endless_server world0 PNone "[]"] e
  have c: "list_courses_loop endless_server world0 [] PNone = None" by simp
  have ea: "ends_after three_pages (calls world0) PNone (Suc (Suc (Suc 0)))"
    by (simp add: three_pages_def fake_server_def world0_def fetch_page_def py_get_def)
  from pagination_loop_termination [of three_pages world0 PNone "[]"] ea
  have d: "\<exists>w' res. list_courses_loop three_pages world0 [] PNone = Some (w', Inr res) \<and>
             length (calls w') = Suc (Suc (Suc 0))"
    by (simp add: world0_def)
  from ea d run a last b e c show ?thesis by simp
qed

text \<open>
  Claim C3. When the transport of \<open>get_course\<close> raises an \<open>HttpError\<close> whose body carries
  the error code 404, the call returns normally after printing a "not found" line that
  names the requested id; with any other code in the body the same \<open>HttpError\<close> reaches
  the caller and nothing is printed.
\<close>

theorem get_course_404_recovered_other_propagates:
  assumes "srv (calls w @ [CoursesGet ''123456'']) = Inl (HttpError st (Decoded body))"
    and "py_get body ''error'' PNone = Inr err"
    and "py_get err ''code'' PNone = Inr (PInt n)"
  shows "get_course srv w =
     (if n = 404 then
        (w\<lparr>calls := calls w @ [CoursesGet ''123456''],
           out := out w @ [[Lit ''Course with ID \"{%s}\" not found. 123456'']]\<rparr>, Inr ())
      else (w\<lparr>calls := calls w @ [CoursesGet ''123456'']\<rparr>, Inl (HttpError st (Decoded body))))"
  using assms by (simp add: get_course_def execute_def json_loads_def py_print_def Let_def)

theorem get_course_404_recovered_other_propagates_witness:
  "get_course (fail_server (HttpError 404 (Decoded (error_body 404)))) world0 =
     (\<lparr>calls = [CoursesGet ''123456''],
       out = [[Lit ''Course with ID \"{%s}\" not found. 123456'']]\<rparr>, Inr ()) \<and>
   get_course (fail_server (HttpError 500 (Decoded (error_body 500)))) world0 =
     (\<lparr>calls = [CoursesGet ''123456''], out = []\<rparr>,
      Inl (HttpError 500 (Decoded (error_body 500))))"
  using get_course_404_recovered_other_propagates
          [where srv = "fail_server (HttpError 404 (Decoded (error_body 404)))" and w = world0
             and st = 404 and body = "error_body 404" and n = 404
             and err = "PDict [(''code'', PInt 404), (''message'', PStr ''failed'')]"]
        get_course_404_recovered_other_propagates
          [where srv = "fail_server (HttpError 500 (Decoded (error_body 500)))" and w = world0
             and st = 500 and body = "error_body 500" and n = 500
             and err = "PDict [(''code'', PInt 500), (''message'', PStr ''failed'')]"]
  by (simp add: fail_server_def error_body_def py_get_def world0_def)

text \<open>
  Claim C4. When the transport of \<open>add_teacher\<close> or \<open>add_student\<close> raises an \<open>HttpError\<close>
  whose body carries the error code 409, the call returns normally after printing an
  "already a member" line; with any other code in the body, 500 for one, the same
  \<open>HttpError\<close> reaches the caller and nothing is printed.
\<close>

theorem enrollment_409_recovered_other_propagates:
  assumes "py_get body ''error'' PNone = Inr err"
    and "py_get err ''code'' PNone = Inr (PInt n)"
  shows
   "(srv (calls w @ [TeachersCreate ''123456'' (PDict [(''userId'', PStr ''alice@example.edu'')])])
       = Inl (HttpError st (Decoded body)) \<longrightarrow>
     add_teacher srv w =
       (if n = 409 then
          (w\<lparr>calls := calls w @
                 [TeachersCreate ''123456'' (PDict [(''userId'', PStr ''alice@example.edu'')])],
             out := out w @
                 [[Lit ''User \"{alice@example.edu}\" is already a member of this course.'']]\<rparr>,
           Inr ())
        else
          (w\<lparr>calls := calls w @
                 [TeachersCreate ''123456'' (PDict [(''userId'', PStr ''alice@example.edu'')])]\<rparr>,
           Inl (HttpError st (Decoded body))))) \<and>
    (srv (calls w @ [StudentsCreate ''123456'' ''abcdef'' (PDict [(''userId'', PStr ''me'')])])
       = Inl (HttpError st (Decoded body)) \<longrightarrow>
     add_student srv w =
       (if n = 409 then
          (w\<lparr>calls := calls w @
                 [StudentsCreate ''123456'' ''abcdef'' (PDict [(''userId'', PStr ''me'')])],
             out := out w @ [[Lit ''You are already a member of this course.'']]\<rparr>,
           Inr ())
        else
          (w\<lparr>calls := calls w @
                 [StudentsCreate ''123456'' ''abcdef'' (PDict [(''userId'', PStr ''me'')])]\<rparr>,
           Inl (HttpError st (Decoded body)))))"
proof (intro conjI impI)
  assume "srv (calls w @ [TeachersCreate ''123456'' (PDict [(''userId'', PStr ''alice@example.edu'')])])
       = Inl (HttpError st (Decoded body))"
  with assms show "add_teacher srv w =
       (if n = 409 then
          (w\<lparr>calls := calls w @
                 [TeachersCreate ''123456'' (PDict [(''userId'', PStr ''alice@example.edu'')])],
             out := out w @
                 [[Lit ''User \"{alice@example.edu}\" is already a member of this course.'']]\<rparr>,
           Inr ())
        else
          (w\<lparr>calls := calls w @
                 [TeachersCreate ''123456'' (PDict [(''userId'', PStr ''alice@example.edu'')])]\<rparr>,
           Inl (HttpError st (Decoded body))))"
    by (simp add: add_teacher_def execute_def json_loads_def py_print_def Let_def)
next
  assume "srv (calls w @ [StudentsCreate ''123456'' ''abcdef'' (PDict [(''userId'', PStr ''me'')])])
       = Inl (HttpError st (Decoded body))"
  with assms show "add_student srv w =
       (if n = 409 then
          (w\<lparr>calls := calls w @
                 [StudentsCreate ''123456'' ''abcdef'' (PDict [(''userId'', PStr ''me'')])],
             out := out w @ [[Lit ''You are already a member of this course.'']]\<rparr>,
           Inr ())
        else
          (w\<lparr>calls := calls w @
                 [StudentsCreate ''123456'' ''abcdef'' (PDict [(''userId'', PStr ''me'')])]\<rparr>,
           Inl (HttpError st (Decoded body))))"
    by (simp add: add_student_def execute_def json_loads_def py_print_def Let_def)
qed

theorem enrollment_409_recovered_other_propagates_witness:
  "add_teacher (fail_server (HttpError 409 (Decoded (error_body 409)))) world0 =
     (\<lparr>calls = [TeachersCreate ''123456'' (PDict [(''userId'', PStr ''alice@example.edu'')])],
       out = [[Lit ''User \"{alice@example.edu}\" is already a member of this course.'']]\<rparr>,
      Inr ()) \<and>
   add_student (fail_server (HttpError 409 (Decoded (error_body 409)))) world0 =
     (\<lparr>calls = [StudentsCreate ''123456'' ''abcdef'' (PDict [(''userId'', PStr ''me'')])],
       out = [[Lit ''You are already a member of this course.'']]\<rparr>, Inr ()) \<and>
   add_teacher (fail_server (HttpError 500 (Decoded (error_body 500)))) world0 =
     (\<lparr>calls = [TeachersCreate ''123456'' (PDict [(''userId'', PStr ''alice@example.edu'')])],
       out = []\<rparr>, Inl (HttpError 500 (Decoded (error_body 500)))) \<and>
   add_student (fail_server (HttpError 500 (Decoded (error_body 500)))) world0 =
     (\<lparr>calls = [StudentsCreate ''123456'' ''abcdef'' (PDict [(''userId'', PStr ''me'')])],
       out = []\<rparr>, Inl (HttpError 500 (Decoded (error_body 500))))"
  using enrollment_409_recovered_other_propagates
          [where srv = "fail_server (HttpError 409 (Decoded (error_body 409)))" and w = world0
             and st = 409 and body = "error_body 409" and n = 409
             and err = "PDict [(''code'', PInt 409), (''message'', PStr ''failed'')]"]
        enrollment_409_recovered_other_propagates
          [where srv = "fail_server (HttpError 500 (Decoded (error_body 500)))" and w = world0
             and st = 500 and body = "error_body 500" and n = 500
             and err = "PDict [(''code'', PInt 500), (''message'', PStr ''failed'')]"]
  by (simp add: fail_server_def error_body_def py_get_def world0_def)

text \<open>
  Claim C10. Whatever course record the get request of \<open>update_course\<close> returns, the body
  of the update request that follows is that record with \<open>section\<close> set to "Period 3" and
  \<open>room\<close> set to "302": every other field is sent back as it was fetched, in the same order.
\<close>

theorem update_course_changes_only_section_and_room:
  assumes "srv (calls w @ [CoursesGet ''123456'']) = Inr (PDict kvs)"
  shows "\<exists>kvs'.
           calls (fst (update_course srv w)) =
             calls w @ [CoursesGet ''123456'', CoursesUpdate ''123456'' (PDict kvs')] \<and>
           map_of kvs' = (map_of kvs)(''section'' \<mapsto> PStr ''Period 3'', ''room'' \<mapsto> PStr ''302'') \<and>
           filter (\<lambda>kv. fst kv \<noteq> ''section'' \<and> fst kv \<noteq> ''room'') kvs' =
           filter (\<lambda>kv. fst kv \<noteq> ''section'' \<and> fst kv \<noteq> ''room'') kvs"
proof -
  let ?kvs' = "dict_store ''room'' (PStr ''302'') (dict_store ''section'' (PStr ''Period 3'') kvs)"
  have c: "calls (fst (update_course srv w)) =
             calls w @ [CoursesGet ''123456'', CoursesUpdate ''123456'' (PDict ?kvs')]"
    using assms
    by (simp add: update_course_def execute_def py_setitem_def py_print_def Let_def
             split: sum.splits)
  have m: "map_of ?kvs' = (map_of kvs)(''section'' \<mapsto> PStr ''Period 3'', ''room'' \<mapsto> PStr ''302'')"
    by (simp only: map_of_dict_store)
  have f: "filter (\<lambda>kv. fst kv \<noteq> ''section'' \<and> fst kv \<noteq> ''room'') ?kvs' =
           filter (\<lambda>kv. fst kv \<noteq> ''section'' \<and> fst kv \<noteq> ''room'') kvs"
    using filter_dict_store [where keep = "\<lambda>k. k \<noteq> ''section'' \<and> k \<noteq> ''room''"]
    by simp
  from c m f show ?thesis by blast
qed

theorem update_course_changes_only_section_and_room_witness:
  "course_server (calls world0 @ [CoursesGet ''123456'']) =
     Inr (PDict [(''id'', PStr ''123456''), (''name'', PStr ''Biology''),
                 (''section'', PStr ''Period 2''), (''ownerId'', PStr ''me''),
                 (''room'', PStr ''301'')]) \<and>
   calls (fst (update_course course_server world0)) =
     [CoursesGet ''123456'',
      CoursesUpdate ''123456''
        (PDict [(''id'', PStr ''123456''), (''name'', PStr ''Biology''),
                (''section'', PStr ''Period 3''), (''ownerId'', PStr ''me''),
                (''room'', PStr ''302'')])]"
proof -
  have h: "course_server (calls world0 @ [CoursesGet ''123456'']) =
     Inr (PDict [(''id'', PStr ''123456''), (''name'', PStr ''Biology''),
                 (''section'', PStr ''Period 2''), (''ownerId'', PStr ''me''),
                 (''room'', PStr ''301'')])"
    by (simp add: course_server_def stored_course_def)
  from update_course_changes_only_section_and_room
         [where srv = course_server and w = world0, OF h]
  obtain kvs' where
    c: "calls (fst (update_course course_server world0)) =
          calls world0 @ [CoursesGet ''123456'', CoursesUpdate ''123456'' (PDict kvs')]"
    by blast
  have "calls (fst (update_course course_server world0)) =
     [CoursesGet ''123456'',
      CoursesUpdate ''123456''
        (PDict [(''id'', PStr ''123456''), (''name'', PStr ''Biology''),
                (''section'', PStr ''Period 3''), (''ownerId'', PStr ''me''),
                (''room'', PStr ''302'')])]"
    by (simp add: update_course_def execute_def py_setitem_def py_print_def Let_def
          course_server_def stored_course_def world0_def py_get_def)
  with h c show ?thesis by simp
qed

lemma fail_create_course:
  "\<forall>rq. srv (calls w @ [rq]) = Inl e \<Longrightarrow> snd (create_course srv w) = Inl e"
  by (simp add: create_course_def execute_def Let_def)

lemma fail_update_course:
  "\<forall>rq. srv (calls w @ [rq]) = Inl e \<Longrightarrow> snd (update_course srv w) = Inl e"
  by (simp add: update_course_def execute_def Let_def)

lemma fail_patch_course:
  "\<forall>rq. srv (calls w @ [rq]) = Inl e \<Longrightarrow> snd (patch_course srv w) = Inl e"
  by (simp add: patch_course_def execute_def Let_def)

lemma fail_create_coursework:
  "\<forall>rq. srv (calls w @ [rq]) = Inl e \<Longrightarrow> snd (create_coursework srv w) = Inl e"
  by (simp add: create_coursework_def execute_def Let_def)

lemma fail_list_courses:
  assumes "\<forall>rq. srv (calls w @ [rq]) = Inl e"
  shows "list_courses srv w = Some (w\<lparr>calls := calls w @ [CoursesList PNone 100]\<rparr>, Inl e)"
proof -
  have "list_courses_loop srv w [] PNone =
          Some (w\<lparr>calls := calls w @ [CoursesList PNone 100]\<rparr>, Inl e)"
    using assms by (subst list_courses_loop.simps) (simp add: execute_def Let_def)
  then show ?thesis by (simp add: list_courses_def)
qed

lemma fail_other_get_course:
  "\<forall>rq. srv (calls w @ [rq]) = Inl e \<Longrightarrow> \<forall>st c. e \<noteq> HttpError st c \<Longrightarrow>
   snd (get_course srv w) = Inl e"
  by (simp add: get_course_def execute_def Let_def split: exn.splits)

lemma fail_other_add_teacher:
  "\<forall>rq. srv (calls w @ [rq]) = Inl e \<Longrightarrow> \<forall>st c. e \<noteq> HttpError st c \<Longrightarrow>
   snd (add_teacher srv w) = Inl e"
  by (simp add: add_teacher_def execute_def Let_def split: exn.splits)

lemma fail_other_add_student:
  "\<forall>rq. srv (calls w @ [rq]) = Inl e \<Longrightarrow> \<forall>st c. e \<noteq> HttpError st c \<Longrightarrow>
   snd (add_student srv w) = Inl e"
  by (simp add: add_student_def execute_def Let_def split: exn.splits)

lemma fail_other_add_alias_new:
  "\<forall>rq. srv (calls w @ [rq]) = Inl e \<Longrightarrow> \<forall>st c. e \<noteq> HttpError st c \<Longrightarrow>
   snd (add_alias_new srv w) = Inl e"
  by (simp add: add_alias_new_def execute_def Let_def split: exn.splits)

lemma fail_other_add_alias_existing:
  "\<forall>rq. srv (calls w @ [rq]) = Inl e \<Longrightarrow> \<forall>st c. e \<noteq> HttpError st c \<Longrightarrow>
   snd (add_alias_existing srv w) = Inl e"
  by (simp add: add_alias_existing_def execute_def Let_def split: exn.splits)

lemma fail_code_get_course:
  "\<forall>rq. srv (calls w @ [rq]) = Inl (HttpError st (Decoded body)) \<Longrightarrow>
   py_get body ''error'' PNone = Inr err \<Longrightarrow> py_get err ''code'' PNone = Inr (PInt n) \<Longrightarrow>
   n \<noteq> 404 \<Longrightarrow> snd (get_course srv w) = Inl (HttpError st (Decoded body))"
  by (simp add: get_course_def execute_def json_loads_def Let_def)

lemma fail_code_add_teacher:
  "\<forall>rq. srv (calls w @ [rq]) = Inl (HttpError st (Decoded body)) \<Longrightarrow>
   py_get body ''error'' PNone = Inr err \<Longrightarrow> py_get err ''code'' PNone = Inr (PInt n) \<Longrightarrow>
   n \<noteq> 409 \<Longrightarrow> snd (add_teacher srv w) = Inl (HttpError st (Decoded body))"
  by (simp add: add_teacher_def execute_def json_loads_def Let_def)

lemma fail_code_add_student:
  "\<forall>rq. srv (calls w @ [rq]) = Inl (HttpError st (Decoded body)) \<Longrightarrow>
   py_get body ''error'' PNone = Inr err \<Longrightarrow> py_get err ''code'' PNone = Inr (PInt n) \<Longrightarrow>
   n \<noteq> 409 \<Longrightarrow> snd (add_student srv w) = Inl (HttpError st (Decoded body))"
  by (simp add: add_student_def execute_def json_loads_def Let_def)

lemma http_add_alias_new:
  "\<forall>rq. srv (calls w @ [rq]) = Inl (HttpError st c) \<Longrightarrow>
   snd (add_alias_new srv w) = Inr () \<and>
   out (fst (add_alias_new srv w)) = out w @ [[Lit ''Course Creation Failed'']]"
  by (simp add: add_alias_new_def execute_def py_print_def Let_def)

lemma http_add_alias_existing:
  "\<forall>rq. srv (calls w @ [rq]) = Inl (HttpError st c) \<Longrightarrow>
   snd (add_alias_existing srv w) = Inr () \<and>
   out (fst (add_alias_existing srv w)) = out w @ [[Lit ''Alias Creation Failed'']]"
  by (simp add: add_alias_existing_def execute_def py_print_def Let_def)

lemma fail_update_course_second:
  assumes "srv (calls w @ [CoursesGet ''123456'']) = Inr (PDict kvs)"
    and "srv (calls w @ [CoursesGet ''123456'',
            CoursesUpdate ''123456''
              (PDict (dict_store ''room'' (PStr ''302'')
                        (dict_store ''section'' (PStr ''Period 3'') kvs)))]) = Inl e"
  shows "update_course srv w =
           (w\<lparr>calls := calls w @ [CoursesGet ''123456'',
                CoursesUpdate ''123456''
                  (PDict (dict_store ''room'' (PStr ''302'')
                            (dict_store ''section'' (PStr ''Period 3'') kvs)))]\<rparr>,
            Inl e)"
  using assms by (simp add: update_course_def execute_def py_setitem_def Let_def)

lemma fail_list_courses_later:
  assumes "fails_after srv (calls w) PNone n e"
  shows "\<exists>w'. list_courses srv w = Some (w', Inl e) \<and>
              length (calls w') = length (calls w) + Suc n \<and> out w' = out w"
proof -
  from loop_fails_after [OF assms, of "[]"] obtain w' where
    "list_courses_loop srv w [] PNone = Some (w', Inl e)"
    "length (calls w') = length (calls w) + Suc n" "out w' = out w"
    by blast
  then show ?thesis by (simp add: list_courses_def)
qed

lemma fail_out_unchanged:
  assumes "\<forall>rq. srv (calls w @ [rq]) = Inl e"
  shows "out (fst (create_course srv w)) = out w" and "out (fst (update_course srv w)) = out w"
    and "out (fst (patch_course srv w)) = out w"
    and "out (fst (create_coursework srv w)) = out w"
  using assms
  by (simp_all add: create_course_def update_course_def patch_course_def
        create_coursework_def execute_def Let_def)

text \<open>
  Claim C2, as stated, fails: the alias snippets swallow a failure with code 500. Both
  return normally and only print that the creation failed.
\<close>

theorem alias_creation_swallows_http_500:
  "snd (add_alias_new (fail_server (HttpError 500 (Decoded (error_body 500)))) world0) = Inr () \<and>
   out (fst (add_alias_new (fail_server (HttpError 500 (Decoded (error_body 500)))) world0)) =
     [[Lit ''Course Creation Failed'']] \<and>
   snd (add_alias_existing (fail_server (HttpError 500 (Decoded (error_body 500)))) world0) =
     Inr () \<and>
   out (fst (add_alias_existing (fail_server (HttpError 500 (Decoded (error_body 500)))) world0)) =
     [[Lit ''Alias Creation Failed'']]"
  by (simp add: add_alias_new_def add_alias_existing_def execute_def py_print_def Let_def
        fail_server_def world0_def)

text \<open>
  Claim C2, amended. Create, update, patch, create-coursework and list re-raise every
  failure of the transport unchanged and print nothing: on the request of create, patch
  and create-coursework, on the get and on the update request of update, and on whichever
  page fetch of list fails. Every snippet re-raises a failure of its request that is not
  an \<open>HttpError\<close>. Get-by-id re-raises an \<open>HttpError\<close> whose body carries a code other than
  404, add-teacher and add-student one whose body carries a code other than 409. The two
  alias snippets catch every \<open>HttpError\<close>, print that the creation failed and return
  normally.
\<close>

theorem failure_propagation_policy:
  "((\<forall>rq. srv (calls w @ [rq]) = Inl e) \<longrightarrow>
      (snd (create_course srv w) = Inl e \<and> out (fst (create_course srv w)) = out w \<and>
       snd (update_course srv w) = Inl e \<and> out (fst (update_course srv w)) = out w \<and>
       snd (patch_course srv w) = Inl e \<and> out (fst (patch_course srv w)) = out w \<and>
       snd (create_coursework srv w) = Inl e \<and> out (fst (create_coursework srv w)) = out w \<and>
       list_courses srv w = Some (w\<lparr>calls := calls w @ [CoursesList PNone 100]\<rparr>, Inl e)) \<and>
      ((\<forall>st c. e \<noteq> HttpError st c) \<longrightarrow>
         snd (get_course srv w) = Inl e \<and> snd (add_teacher srv w) = Inl e \<and>
         snd (add_student srv w) = Inl e \<and> snd (add_alias_new srv w) = Inl e \<and>
         snd (add_alias_existing srv w) = Inl e) \<and>
      (\<forall>st body err n.
         e = HttpError st (Decoded body) \<and> py_get body ''error'' PNone = Inr err \<and>
         py_get err ''code'' PNone = Inr (PInt n) \<longrightarrow>
           (n \<noteq> 404 \<longrightarrow> snd (get_course srv w) = Inl e) \<and>
           (n \<noteq> 409 \<longrightarrow> snd (add_teacher srv w) = Inl e \<and> snd (add_student srv w) = Inl e)) \<and>
      (\<forall>st c. e = HttpError st c \<longrightarrow>
         snd (add_alias_new srv w) = Inr () \<and>
         out (fst (add_alias_new srv w)) = out w @ [[Lit ''Course Creation Failed'']] \<and>
         snd (add_alias_existing srv w) = Inr () \<and>
         out (fst (add_alias_existing srv w)) = out w @ [[Lit ''Alias Creation Failed'']])) \<and>
   (\<forall>kvs.
      srv (calls w @ [CoursesGet ''123456'']) = Inr (PDict kvs) \<and>
      srv (calls w @ [CoursesGet ''123456'',
             CoursesUpdate ''123456''
               (PDict (dict_store ''room'' (PStr ''302'')
                         (dict_store ''section'' (PStr ''Period 3'') kvs)))]) = Inl e \<longrightarrow>
        update_course srv w =
          (w\<lparr>calls := calls w @ [CoursesGet ''123456'',
               CoursesUpdate ''123456''
                 (PDict (dict_store ''room'' (PStr ''302'')
                           (dict_store ''section'' (PStr ''Period 3'') kvs)))]\<rparr>,
           Inl e)) \<and>
   (\<forall>n. fails_after srv (calls w) PNone n e \<longrightarrow>
      (\<exists>w'. list_courses srv w = Some (w', Inl e) \<and>
            length (calls w') = length (calls w) + Suc n \<and> out w' = out w))"
proof (intro conjI allI impI)
  assume a: "\<forall>rq. srv (calls w @ [rq]) = Inl e"
  show "snd (create_course srv w) = Inl e" by (rule fail_create_course [OF a])
  show "snd (update_course srv w) = Inl e" by (rule fail_update_course [OF a])
  show "snd (patch_course srv w) = Inl e" by (rule fail_patch_course [OF a])
  show "snd (create_coursework srv w) = Inl e" by (rule fail_create_coursework [OF a])
  show "out (fst (create_course srv w)) = out w" by (rule fail_out_unchanged(1) [OF a])
  show "out (fst (update_course srv w)) = out w" by (rule fail_out_unchanged(2) [OF a])
  show "out (fst (patch_course srv w)) = out w" by (rule fail_out_unchanged(3) [OF a])
  show "out (fst (create_coursework srv w)) = out w" by (rule fail_out_unchanged(4) [OF a])
  show "list_courses srv w = Some (w\<lparr>calls := calls w @ [CoursesList PNone 100]\<rparr>, Inl e)"
    by (rule fail_list_courses [OF a])
  {
    assume o: "\<forall>st c. e \<noteq> HttpError st c"
    show "snd (get_course srv w) = Inl e" by (rule fail_other_get_course [OF a o])
    show "snd (add_teacher srv w) = Inl e" by (rule fail_other_add_teacher [OF a o])
    show "snd (add_student srv w) = Inl e" by (rule fail_other_add_student [OF a o])
    show "snd (add_alias_new srv w) = Inl e" by (rule fail_other_add_alias_new [OF a o])
    show "snd (add_alias_existing srv w) = Inl e"
      by (rule fail_other_add_alias_existing [OF a o])
  }
  {
    fix st body err n
    assume h: "e = HttpError st (Decoded body) \<and> py_get body ''error'' PNone = Inr err \<and>
         py_get err ''code'' PNone = Inr (PInt n)"
    with a have b: "\<forall>rq. srv (calls w @ [rq]) = Inl (HttpError st (Decoded body))" by simp
    {
      assume "n \<noteq> 404"
      with fail_code_get_course [OF b] h show "snd (get_course srv w) = Inl e" by simp
    }
    {
      assume n: "n \<noteq> 409"
      with fail_code_add_teacher [OF b] h show "snd (add_teacher srv w) = Inl e" by simp
      from n fail_code_add_student [OF b] h show "snd (add_student srv w) = Inl e" by simp
    }
  }
  {
    fix st c
    assume h: "e = HttpError st c"
    with a have b: "\<forall>rq. srv (calls w @ [rq]) = Inl (HttpError st c)" by simp
    from http_add_alias_new [OF b]
    show "snd (add_alias_new srv w) = Inr ()"
      and "out (fst (add_alias_new srv w)) = out w @ [[Lit ''Course Creation Failed'']]"
      by simp_all
    from http_add_alias_existing [OF b]
    show "snd (add_alias_existing srv w) = Inr ()"
      and "out (fst (add_alias_existing srv w)) = out w @ [[Lit ''Alias Creation Failed'']]"
      by simp_all
  }
next
  fix kvs
  assume "srv (calls w @ [CoursesGet ''123456'']) = Inr (PDict kvs) \<and>
      srv (calls w @ [CoursesGet ''123456'',
             CoursesUpdate ''123456''
               (PDict (dict_store ''room'' (PStr ''302'')
                         (dict_store ''section'' (PStr ''Period 3'') kvs)))]) = Inl e"
  then show "update_course srv w =
          (w\<lparr>calls := calls w @ [CoursesGet ''123456'',
               CoursesUpdate ''123456''
                 (PDict (dict_store ''room'' (PStr ''302'')
                           (dict_store ''section'' (PStr ''Period 3'') kvs)))]\<rparr>,
           Inl e)"
    by (intro fail_update_course_second) simp_all
next
  fix n
  assume "fails_after srv (calls w) PNone n e"
  then show "\<exists>w'. list_courses srv w = Some (w', Inl e) \<and>
            length (calls w') = length (calls w) + Suc n \<and> out w' = out w"
    by (rule fail_list_courses_later)
qed

theorem failure_propagation_policy_witness:
  "snd (create_course (fail_server (HttpError 500 (Decoded (error_body 500)))) world0) =
     Inl (HttpError 500 (Decoded (error_body 500))) \<and>
   list_courses (fail_server (HttpError 500 (Decoded (error_body 500)))) world0 =
     Some (\<lparr>calls = [CoursesList PNone 100], out = []\<rparr>,
           Inl (HttpError 500 (Decoded (error_body 500)))) \<and>
   snd (get_course (fail_server (HttpError 500 (Decoded (error_body 500)))) world0) =
     Inl (HttpError 500 (Decoded (error_body 500))) \<and>
   snd (add_teacher (fail_server (HttpError 500 (Decoded (error_body 500)))) world0) =
     Inl (HttpError 500 (Decoded (error_body 500))) \<and>
   snd (add_alias_new (fail_server (HttpError 500 (Decoded (error_body 500)))) world0) = Inr () \<and>
   snd (add_alias_new (fail_server (OtherError ''timed out'')) world0) =
     Inl (OtherError ''timed out'') \<and>
   snd (get_course (fail_server (OtherError ''timed out'')) world0) =
     Inl (OtherError ''timed out'') \<and>
   update_course update_refused world0 =
     (\<lparr>calls = [CoursesGet ''123456'',
                CoursesUpdate ''123456''
                  (PDict [(''id'', PStr ''123456''), (''name'', PStr ''Biology''),
                          (''section'', PStr ''Period 3''), (''ownerId'', PStr ''me''),
                          (''room'', PStr ''302'')])],
       out = []\<rparr>,
      Inl (HttpError 500 (Decoded (error_body 500)))) \<and>
   fails_after third_page_fails (calls world0) PNone (Suc (Suc 0))
     (HttpError 503 (Decoded (error_body 503))) \<and>
   (\<exists>w'. list_courses third_page_fails world0 =
           Some (w', Inl (HttpError 503 (Decoded (error_body 503)))) \<and>
         length (calls w') = Suc (Suc (Suc 0)) \<and> out w' = [])"
proof -
  have a: "\<forall>rq. fail_server (HttpError 500 (Decoded (error_body 500))) (calls world0 @ [rq]) =
             Inl (HttpError 500 (Decoded (error_body 500)))"
    by (simp add: fail_server_def)
  have b: "\<forall>rq. fail_server (OtherError ''timed out'') (calls world0 @ [rq]) =
             Inl (OtherError ''timed out'')"
    by (simp add: fail_server_def)
  have c: "py_get (error_body 500) ''error'' PNone =
             Inr (PDict [(''code'', PInt 500), (''message'', PStr ''failed'')])"
    "py_get (PDict [(''code'', PInt 500), (''message'', PStr ''failed'')]) ''code'' PNone =
       Inr (PInt 500)"
    by (simp_all add: error_body_def py_get_def)
  from failure_propagation_policy
         [of "fail_server (HttpError 500 (Decoded (error_body 500)))" world0
             "HttpError 500 (Decoded (error_body 500))"] a c
  have p: "snd (create_course (fail_server (HttpError 500 (Decoded (error_body 500)))) world0) =
     Inl (HttpError 500 (Decoded (error_body 500))) \<and>
   list_courses (fail_server (HttpError 500 (Decoded (error_body 500)))) world0 =
     Some (\<lparr>calls = [CoursesList PNone 100], out = []\<rparr>,
           Inl (HttpError 500 (Decoded (error_body 500)))) \<and>
   snd (get_course (fail_server (HttpError 500 (Decoded (error_body 500)))) world0) =
     Inl (HttpError 500 (Decoded (error_body 500))) \<and>
   snd (add_teacher (fail_server (HttpError 500 (Decoded (error_body 500)))) world0) =
     Inl (HttpError 500 (Decoded (error_body 500))) \<and>
   snd (add_alias_new (fail_server (HttpError 500 (Decoded (error_body 500)))) world0) = Inr ()"
    by (simp add: world0_def)
  from failure_propagation_policy
         [of "fail_server (OtherError ''timed out'')" world0 "OtherError ''timed out''"] b
  have q: "snd (add_alias_new (fail_server (OtherError ''timed out'')) world0) =
     Inl (OtherError ''timed out'') \<and>
   snd (get_course (fail_server (OtherError ''timed out'')) world0) =
     Inl (OtherError ''timed out'')"
    by simp
  have u1: "update_refused (calls world0 @ [CoursesGet ''123456'']) =
      Inr (PDict [(''id'', PStr ''123456''), (''name'', PStr ''Biology''),
                  (''section'', PStr ''Period 2''), (''ownerId'', PStr ''me''),
                  (''room'', PStr ''301'')])"
    by (simp add: update_refused_def fake_server_def stored_course_def world0_def)
  have u2: "update_refused (calls world0 @ [CoursesGet ''123456'',
             CoursesUpdate ''123456''
               (PDict (dict_store ''room'' (PStr ''302'')
                         (dict_store ''section'' (PStr ''Period 3'')
                            [(''id'', PStr ''123456''), (''name'', PStr ''Biology''),
                             (''section'', PStr ''Period 2''), (''ownerId'', PStr ''me''),
                             (''room'', PStr ''301'')])))]) =
      Inl (HttpError 500 (Decoded (error_body 500)))"
    by (simp add: update_refused_def fake_server_def world0_def)
  from failure_propagation_policy
         [of update_refused world0 "HttpError 500 (Decoded (error_body 500))"] u1 u2
  have u: "update_course update_refused world0 =
     (\<lparr>calls = [CoursesGet ''123456'',
                CoursesUpdate ''123456''
                  (PDict [(''id'', PStr ''123456''), (''name'', PStr ''Biology''),
                          (''section'', PStr ''Period 3''), (''ownerId'', PStr ''me''),
                          (''room'', PStr ''302'')])],
       out = []\<rparr>,
      Inl (HttpError 500 (Decoded (error_body 500))))"
    by (simp add: world0_def)
  have f: "fails_after third_page_fails (calls world0) PNone (Suc (Suc 0))
     (HttpError 503 (Decoded (error_body 503)))"
    by (simp add: third_page_fails_def fake_server_def world0_def fetch_page_def py_get_def)
  from failure_propagation_policy
         [of third_page_fails world0 "HttpError 503 (Decoded (error_body 503))"] f
  have l: "\<exists>w'. list_courses third_page_fails world0 =
           Some (w', Inl (HttpError 503 (Decoded (error_body 503)))) \<and>
         length (calls w') = Suc (Suc (Suc 0)) \<and> out w' = []"
    by (simp add: world0_def)
  from p q u f l show ?thesis by simp
qed

section \<open>Requests issued and lines printed by the single-call snippets\<close>






















section \<open>Responses with missing fields\<close>






















end
